theory Spec2Isabelle
  imports Main "HOL-Library.AList"
begin

section \<open>libnmea: sentence classification and dispatch (src/lib/libnmea.c)\<close>

subsection \<open>Types declared in libnmea.h\<close>

text \<open>
  Modelled from the spec: the enumeration \<^verbatim>\<open>nmea_message_type_t\<close> is declared in
  \<^verbatim>\<open>libnmea.h\<close>, which is not part of the sources. The five members below are the ones
  \<^verbatim>\<open>libnmea.c\<close> names; the specification calls the set closed
  (GGA, GSA, GSV, VTG, Unknown).
\<close>

datatype nmea_message_type_t =
    kNMEAMessageUnknown
  | kNMEAMessageGGA
  | kNMEAMessageGSA
  | kNMEAMessageGSV
  | kNMEAMessageVTG

text \<open>
  Modelled from the spec: the enumeration \<^verbatim>\<open>nmea_error_t\<close> is declared in
  \<^verbatim>\<open>libnmea.h\<close>. The dispatcher itself only names
  \<^verbatim>\<open>kNMEAErrorTypeNotUnderstood\<close>; every other code is private to a decoder and opaque
  to the dispatcher, so the remaining members are numbered.
\<close>

datatype nmea_error_t =
    kNMEAErrorTypeNotUnderstood
  | kNMEAErrorDecoder nat

text \<open>
  Modelled from the spec: \<^verbatim>\<open>nmea_message_t\<close> is the common header of every message
  structure, declared in \<^verbatim>\<open>libnmea.h\<close>. The only field the dispatcher touches is
  \<^verbatim>\<open>type\<close>. The structures of the individual decoders
  (\<^verbatim>\<open>nmea_message_gga_t\<close> and so on) start with this header and are cast to it; the
  extension part of the record scheme stands for their remaining fields.
\<close>

record nmea_message_t =
  type :: nmea_message_type_t

subsection \<open>C strings and the functions of string.h\<close>

text \<open>
  A character buffer is the list of its bytes. The string functions read a buffer up to
  its first NUL byte; the end of the list reads as NUL as well, so a list without a NUL
  byte stands for the buffer that holds these characters and then the terminator.
\<close>

abbreviation NUL :: char where
  "NUL \<equiv> CHR 0x00"

fun peek :: "string \<Rightarrow> char" where
  "peek [] = NUL"
| "peek (c # cs) = c"

text \<open>The characters of the C string held in a buffer.\<close>

fun c_str :: "string \<Rightarrow> string" where
  "c_str [] = []"
| "c_str (c # cs) = (if c = NUL then [] else c # c_str cs)"

fun strlen :: "string \<Rightarrow> nat" where
  "strlen [] = 0"
| "strlen (c # cs) = (if c = NUL then 0 else Suc (strlen cs))"

text \<open>
  \<^verbatim>\<open>strncmp(s1, s2, n)\<close>: compares at most \<open>n\<close> characters as unsigned bytes and stops
  after a NUL; the result is the difference of the first two bytes that differ.
\<close>

fun strncmp :: "string \<Rightarrow> string \<Rightarrow> nat \<Rightarrow> int" where
  "strncmp s1 s2 0 = 0"
| "strncmp s1 s2 (Suc n) =
     (if peek s1 \<noteq> peek s2 then of_char (peek s1) - of_char (peek s2)
      else if peek s1 = NUL then 0
      else strncmp (tl s1) (tl s2) n)"

text \<open>
  \<^verbatim>\<open>strncpy(dst, src, n)\<close>: the \<open>n\<close> bytes written to \<open>dst\<close>: the characters of
  \<open>src\<close>, at most \<open>n\<close> of them, then NUL bytes up to \<open>n\<close>.
\<close>

fun strncpy :: "string \<Rightarrow> nat \<Rightarrow> string" where
  "strncpy src 0 = []"
| "strncpy src (Suc n) =
     (if peek src = NUL then NUL # strncpy [] n
      else peek src # strncpy (tl src) n)"

subsection \<open>The type registry\<close>

text \<open>
  The static array \<^verbatim>\<open>type_map\<close>: a \<^verbatim>\<open>char *\<close> that may be \<^verbatim>\<open>NULL\<close>
  (\<open>None\<close>) and the type it stands for. The last entry is the sentinel.
\<close>

definition type_map :: "(string option \<times> nmea_message_type_t) list" where
  "type_map =
    [(Some ''$GPGGA'', kNMEAMessageGGA),
     (Some ''$GPGSA'', kNMEAMessageGSA),
     (Some ''$GPGSV'', kNMEAMessageGSV),
     (Some ''$GPVTF'', kNMEAMessageVTG),
     (None, kNMEAMessageUnknown)]"

text \<open>
  The \<^verbatim>\<open>do ... while(1)\<close> loop of \<^verbatim>\<open>nmea_get_message_type\<close>, from index \<open>i\<close> on.
  \<open>None\<close> is a read past the end of the array, which the C code does not guard
  against (the sentinel is what stops the loop).
\<close>

function type_map_scan :: "string \<Rightarrow> nat \<Rightarrow> nmea_message_type_t option" where
  "type_map_scan message i =
     (if i < length type_map then
        (case fst (type_map ! i) of
           None \<Rightarrow> Some kNMEAMessageUnknown
         | Some nmea \<Rightarrow>
             if strncmp message nmea 6 = 0 then Some (snd (type_map ! i))
             else type_map_scan message (i + 1))
      else None)"
  by pat_completeness auto
termination
  by (relation "measure (\<lambda>(message, i). length type_map - i)") auto

declare type_map_scan.simps [simp del]

text \<open>
  \<^verbatim>\<open>INT_MAX\<close> of \<^verbatim>\<open>limits.h\<close>, for the 32-bit \<^verbatim>\<open>int\<close> in which
  \<^verbatim>\<open>nmea_parse_message\<close> keeps the length of the sentence.
\<close>

definition INT_MAX :: int where
  "INT_MAX = 2147483647"

subsection \<open>Memory, pointers and the ways a call can end\<close>

text \<open>
  The character buffers that are live, by address, and the error slots
  (\<^verbatim>\<open>nmea_error_t\<close> objects), by address. A pointer argument that may be
  \<^verbatim>\<open>NULL\<close> is an \<open>option\<close>.
\<close>

record memory =
  bufs :: "(nat \<times> string) list"
  errs :: "nat \<rightharpoonup> nmea_error_t"

text \<open>
  A call returns a value, or stops the process in \<^verbatim>\<open>abort()\<close> because an
  \<^verbatim>\<open>assert\<close> failed (the macro of \<^verbatim>\<open>assert.h\<close>; the source does not define
  \<^verbatim>\<open>NDEBUG\<close>), or leaves the behaviour C defines. The first two carry the memory as
  it is at that moment.
\<close>

datatype 'a outcome =
    Returned 'a memory
  | Aborted memory
  | Undefined

fun final_memory :: "'a outcome \<Rightarrow> memory option" where
  "final_memory (Returned x s) = Some s"
| "final_memory (Aborted s) = Some s"
| "final_memory Undefined = None"

fun top_addr :: "(nat \<times> string) list \<Rightarrow> nat" where
  "top_addr [] = 0"
| "top_addr ((a, b) # h) = max a (top_addr h)"

text \<open>
  \<^verbatim>\<open>malloc(n)\<close>: a block of \<open>n\<close> bytes at an address that no live buffer has.
  The source does not test the result of \<^verbatim>\<open>malloc\<close>, and the model lets the
  allocation succeed. C leaves the bytes of the new block indeterminate; here they are
  NUL, and \<^verbatim>\<open>nmea_parse_message\<close> overwrites all of them before anything reads them.
\<close>

definition malloc :: "memory \<Rightarrow> nat \<Rightarrow> nat \<times> memory" where
  "malloc s n =
     (let a = Suc (top_addr (bufs s))
      in (a, s\<lparr>bufs := (a, replicate n NUL) # bufs s\<rparr>))"

definition store :: "memory \<Rightarrow> nat \<Rightarrow> string \<Rightarrow> memory" where
  "store s a bytes = s\<lparr>bufs := AList.update a bytes (bufs s)\<rparr>"

definition free :: "memory \<Rightarrow> nat \<Rightarrow> memory" where
  "free s a = s\<lparr>bufs := AList.delete a (bufs s)\<rparr>"

text \<open>\<^verbatim>\<open>if(outError) *outError = e;\<close>\<close>

fun write_err :: "memory \<Rightarrow> nat option \<Rightarrow> nmea_error_t \<Rightarrow> memory" where
  "write_err s None e = s"
| "write_err s (Some a) e = s\<lparr>errs := (errs s)(a \<mapsto> e)\<rparr>"

subsection \<open>The decoders\<close>

text \<open>
  \<^verbatim>\<open>parse_gga\<close>, \<^verbatim>\<open>parse_gsa\<close>, \<^verbatim>\<open>parse_gsv\<close> and \<^verbatim>\<open>parse_vtg\<close> are
  \<^verbatim>\<open>extern\<close>: their code is not in \<^verbatim>\<open>libnmea.c\<close>, and they are parameters here.
  The source says what they may do: each is passed a copy of the message so that it can
  modify it, and an error pointer. So a decoder is a function of the bytes of the buffer it
  is given; it yields the structure it allocated (\<open>None\<close> for \<^verbatim>\<open>NULL\<close>) with whatever it
  left in the \<^verbatim>\<open>type\<close> field, the bytes it leaves in the buffer, and the error code it
  stores through the error pointer, if it stores one.
\<close>

type_synonym 'a decoder =
  "string \<Rightarrow> 'a nmea_message_t_scheme option \<times> string \<times> nmea_error_t option"

record 'a decoders =
  parse_gga :: "'a decoder"
  parse_gsa :: "'a decoder"
  parse_gsv :: "'a decoder"
  parse_vtg :: "'a decoder"

text \<open>
  The call \<^verbatim>\<open>parse_xxx(msg, outErr)\<close>: the decoder works on the buffer \<open>msg\<close> points to;
  its code reaches the slot only when \<open>outErr\<close> is not \<^verbatim>\<open>NULL\<close>.
\<close>

definition call_decoder ::
  "'a decoder \<Rightarrow> memory \<Rightarrow> nat \<Rightarrow> nat option \<Rightarrow> 'a nmea_message_t_scheme option outcome" where
  "call_decoder dec s msg outErr =
     (case map_of (bufs s) msg of
        None \<Rightarrow> Undefined
      | Some bytes \<Rightarrow>
          (case dec bytes of
             (parsed, bytes', err) \<Rightarrow>
               let s1 = store s msg bytes';
                   s2 = (case err of None \<Rightarrow> s1 | Some e \<Rightarrow> write_err s1 outErr e)
               in Returned parsed s2))"

subsection \<open>The two public functions\<close>

text \<open>
  \<^verbatim>\<open>nmea_get_message_type(message)\<close>. The function only reads: the memory it returns is
  the memory it was given.
\<close>

definition nmea_get_message_type ::
  "memory \<Rightarrow> nat option \<Rightarrow> nmea_message_type_t outcome" where
  "nmea_get_message_type s message =
     (case message of
        None \<Rightarrow> Aborted s
      | Some p \<Rightarrow>
          (case map_of (bufs s) p of
             None \<Rightarrow> Undefined
           | Some bytes \<Rightarrow>
               (case type_map_scan bytes 0 of
                  None \<Rightarrow> Undefined
                | Some t \<Rightarrow> Returned t s)))"

text \<open>
  \<^verbatim>\<open>nmea_parse_message(message, outError)\<close>, statement by statement. The length is kept
  in an \<^verbatim>\<open>int\<close>: a sentence whose length plus two does not fit is outside what the model
  gives a meaning to.
\<close>

definition nmea_parse_message ::
  "'a decoders \<Rightarrow> memory \<Rightarrow> nat option \<Rightarrow> nat option
     \<Rightarrow> 'a nmea_message_t_scheme option outcome" where
  "nmea_parse_message D s message outError =
     (case message of
        None \<Rightarrow> Aborted s
      | Some p \<Rightarrow>
          (case map_of (bufs s) p of
             None \<Rightarrow> Undefined
           | Some bytes \<Rightarrow>
               let len = int (strlen bytes) in
               if len + 2 > INT_MAX then Undefined
               else
                 let (copy, s1) = malloc s (nat (len + 2));
                     s2 = store s1 copy (strncpy bytes (nat (len + 2)))
                 in
                 (case nmea_get_message_type s2 message of
                    Undefined \<Rightarrow> Undefined
                  | Aborted s3 \<Rightarrow> Aborted s3
                  | Returned t s3 \<Rightarrow>
                      (case
                         (case t of
                            kNMEAMessageGGA \<Rightarrow> call_decoder (parse_gga D) s3 copy outError
                          | kNMEAMessageGSA \<Rightarrow> call_decoder (parse_gsa D) s3 copy outError
                          | kNMEAMessageGSV \<Rightarrow> call_decoder (parse_gsv D) s3 copy outError
                          | kNMEAMessageVTG \<Rightarrow> call_decoder (parse_vtg D) s3 copy outError
                          | _ \<Rightarrow>
                              Returned None (write_err s3 outError kNMEAErrorTypeNotUnderstood))
                       of
                         Undefined \<Rightarrow> Undefined
                       | Aborted s4 \<Rightarrow> Aborted s4
                       | Returned parsed s4 \<Rightarrow>
                           (case parsed of
                              None \<Rightarrow> Aborted s4
                            | Some r \<Rightarrow>
                                let s5 = free s4 copy
                                in Returned (Some (r\<lparr>type := t\<rparr>)) s5)))))"

subsection \<open>Example decoders and memory\<close>

text \<open>
  Decoders for the concrete calls below. Both cut the buffer at its commas the way
  \<^verbatim>\<open>strtok\<close> does. \<open>example_gga\<close> accepts every buffer and leaves \<^verbatim>\<open>type\<close>
  as \<^verbatim>\<open>kNMEAMessageUnknown\<close>; \<open>example_reject\<close> refuses every buffer with a code of
  its own.
\<close>

definition example_gga :: "unit decoder" where
  "example_gga bytes =
     (Some \<lparr>type = kNMEAMessageUnknown\<rparr>,
      map (\<lambda>c. if c = CHR '','' then NUL else c) bytes,
      None)"

definition example_reject :: "unit decoder" where
  "example_reject bytes =
     (None,
      map (\<lambda>c. if c = CHR '','' then NUL else c) bytes,
      Some (kNMEAErrorDecoder 1))"

definition example_decoders :: "unit decoders" where
  "example_decoders =
     \<lparr>parse_gga = example_gga, parse_gsa = example_reject,
      parse_gsv = example_reject, parse_vtg = example_reject\<rparr>"

text \<open>
  A memory whose only buffer, at address 1, holds the sentence and its terminator, and
  that has no error slot.
\<close>

definition example_memory :: "string \<Rightarrow> memory" where
  "example_memory sentence = \<lparr>bufs = [(1, sentence @ [NUL])], errs = Map.empty\<rparr>"

section \<open>Properties\<close>

subsection \<open>Comparing a prefix\<close>

lemma of_char_zero_iff: "(of_char a = (0::int)) = (a = NUL)"
  using of_char_eq_iff [of a NUL, where ?'a = int] by simp

lemma strncmp_zero_iff:
  "NUL \<notin> set q \<Longrightarrow> (strncmp m q (length q) = 0) = (take (length q) (c_str m) = q)"
proof (induction q arbitrary: m)
  case Nil
  then show ?case by simp
next
  case (Cons a q)
  show ?case
  proof (cases m)
    case Nil
    with Cons.prems show ?thesis by (auto simp: of_char_zero_iff)
  next
    case (Cons c cs)
    with Cons.prems Cons.IH [of cs] show ?thesis by (auto simp: of_char_zero_iff)
  qed
qed

lemma strncmp_prefix6:
  "length q = 6 \<Longrightarrow> NUL \<notin> set q \<Longrightarrow> (strncmp m q 6 = 0) = (take 6 (c_str m) = q)"
  using strncmp_zero_iff [of q m] by simp

subsection \<open>The scan of the registry\<close>

text \<open>
  The loop always stops inside the array, at the first entry whose prefix the sentence
  starts with or at the sentinel.
\<close>

lemma type_map_scan_0:
  "type_map_scan m 0 =
     Some (if take 6 (c_str m) = ''$GPGGA'' then kNMEAMessageGGA
           else if take 6 (c_str m) = ''$GPGSA'' then kNMEAMessageGSA
           else if take 6 (c_str m) = ''$GPGSV'' then kNMEAMessageGSV
           else if take 6 (c_str m) = ''$GPVTF'' then kNMEAMessageVTG
           else kNMEAMessageUnknown)"
proof -
  have 4: "type_map_scan m 4 = Some kNMEAMessageUnknown"
    by (subst type_map_scan.simps) (simp add: type_map_def)
  have 3: "type_map_scan m 3 =
      (if take 6 (c_str m) = ''$GPVTF'' then Some kNMEAMessageVTG else type_map_scan m 4)"
    by (subst type_map_scan.simps) (simp add: type_map_def strncmp_prefix6)
  have 2: "type_map_scan m 2 =
      (if take 6 (c_str m) = ''$GPGSV'' then Some kNMEAMessageGSV else type_map_scan m 3)"
    by (subst type_map_scan.simps) (simp add: type_map_def strncmp_prefix6)
  have 1: "type_map_scan m 1 =
      (if take 6 (c_str m) = ''$GPGSA'' then Some kNMEAMessageGSA else type_map_scan m 2)"
    by (subst type_map_scan.simps) (simp add: type_map_def strncmp_prefix6 numeral_2_eq_2)
  have 0: "type_map_scan m 0 =
      (if take 6 (c_str m) = ''$GPGGA'' then Some kNMEAMessageGGA else type_map_scan m 1)"
    by (subst type_map_scan.simps) (simp add: type_map_def strncmp_prefix6)
  show ?thesis
    unfolding 0 1 2 3 4 by simp
qed

lemma type_map_scan_total: "\<exists>t. type_map_scan m 0 = Some t"
  by (simp add: type_map_scan_0)

lemma nmea_get_message_type_reads:
  "map_of (bufs s) p = Some bytes \<Longrightarrow> type_map_scan bytes 0 = Some t \<Longrightarrow>
     nmea_get_message_type s (Some p) = Returned t s"
  by (simp add: nmea_get_message_type_def)

subsection \<open>Classification\<close>

text \<open>
  C5. For every prefix registered in \<open>type_map\<close> and every sentence whose first six
  characters are that prefix, \<open>nmea_get_message_type\<close> returns the type of that entry,
  whatever follows the prefix in the sentence.
\<close>

theorem registered_prefix_gives_tag:
  assumes "(Some nmea, t) \<in> set type_map"
    and "map_of (bufs s) p = Some bytes"
    and "take 6 (c_str bytes) = nmea"
  shows "nmea_get_message_type s (Some p) = Returned t s"
proof -
  from assms(1,3) have "type_map_scan bytes 0 = Some t"
    unfolding type_map_scan_0 by (auto simp: type_map_def)
  with assms(2) show ?thesis
    by (rule nmea_get_message_type_reads)
qed

theorem registered_prefix_gives_tag_witness:
  "(Some ''$GPGSV'', kNMEAMessageGSV) \<in> set type_map
   \<and> map_of (bufs \<lparr>bufs = [(1, ''$GPGSV,3,1,11*7C'' @ [NUL])], errs = Map.empty\<rparr>) 1
       = Some (''$GPGSV,3,1,11*7C'' @ [NUL])
   \<and> take 6 (c_str (''$GPGSV,3,1,11*7C'' @ [NUL])) = ''$GPGSV''
   \<and> nmea_get_message_type
         \<lparr>bufs = [(1, ''$GPGSV,3,1,11*7C'' @ [NUL])], errs = Map.empty\<rparr> (Some 1)
       = Returned kNMEAMessageGSV
           \<lparr>bufs = [(1, ''$GPGSV,3,1,11*7C'' @ [NUL])], errs = Map.empty\<rparr>"
  using registered_prefix_gives_tag
    [of "''$GPGSV''" kNMEAMessageGSV
        "\<lparr>bufs = [(1, ''$GPGSV,3,1,11*7C'' @ [NUL])], errs = Map.empty\<rparr>" 1
        "''$GPGSV,3,1,11*7C'' @ [NUL]"]
  by (simp add: type_map_def)

text \<open>
  C6. For every sentence (the pointer is not \<^verbatim>\<open>NULL\<close>) whose first six characters are
  none of the registered prefixes, \<open>nmea_get_message_type\<close> returns
  \<open>kNMEAMessageUnknown\<close>: the scan stops at the sentinel.
\<close>

theorem unregistered_prefix_gives_Unknown:
  assumes "map_of (bufs s) p = Some bytes"
    and "\<forall>nmea t. (Some nmea, t) \<in> set type_map \<longrightarrow> take 6 (c_str bytes) \<noteq> nmea"
  shows "nmea_get_message_type s (Some p) = Returned kNMEAMessageUnknown s"
proof -
  from assms(2) have "type_map_scan bytes 0 = Some kNMEAMessageUnknown"
    unfolding type_map_scan_0 by (auto simp: type_map_def)
  with assms(1) show ?thesis
    by (rule nmea_get_message_type_reads)
qed

theorem unregistered_prefix_gives_Unknown_witness:
  "map_of (bufs \<lparr>bufs = [(1, ''$GPXYZ,1'' @ [NUL])], errs = Map.empty\<rparr>) 1
       = Some (''$GPXYZ,1'' @ [NUL])
   \<and> \<not> (\<exists>nmea t. (Some nmea, t) \<in> set type_map
          \<and> take 6 (c_str (''$GPXYZ,1'' @ [NUL])) = nmea)
   \<and> nmea_get_message_type \<lparr>bufs = [(1, ''$GPXYZ,1'' @ [NUL])], errs = Map.empty\<rparr> (Some 1)
       = Returned kNMEAMessageUnknown
           \<lparr>bufs = [(1, ''$GPXYZ,1'' @ [NUL])], errs = Map.empty\<rparr>"
  using unregistered_prefix_gives_Unknown
    [of "\<lparr>bufs = [(1, ''$GPXYZ,1'' @ [NUL])], errs = Map.empty\<rparr>" 1 "''$GPXYZ,1'' @ [NUL]"]
  by (auto simp: type_map_def)



subsection \<open>The paths through the dispatcher\<close>

lemma top_addr_ge: "map_of h p = Some m \<Longrightarrow> p \<le> top_addr h"
  by (induction h) (auto split: if_splits)

lemma fresh_neq: "map_of h p = Some m \<Longrightarrow> p \<noteq> Suc (top_addr h)"
  using top_addr_ge [of h p m] by simp

lemma delete_fresh: "AList.delete (Suc (top_addr h)) h = h"
proof -
  have "\<forall>(k, v) \<in> set h. k \<le> top_addr h"
    by (induction h) auto
  then have "\<forall>x \<in> set h. fst x \<noteq> Suc (top_addr h)"
    by fastforce
  then show ?thesis
    by (auto simp: AList.delete_eq filter_id_conv)
qed

lemma free_copy:
  "bufs s4 = (Suc (top_addr h), b) # h \<Longrightarrow> bufs (free s4 (Suc (top_addr h))) = h"
  by (simp add: free_def delete_fresh)

lemma bufs_write_err [simp]: "bufs (write_err s outErr e) = bufs s"
  by (cases outErr) simp_all

lemma call_decoder_at_head:
  "call_decoder dec (s\<lparr>bufs := (c, cb) # h\<rparr>) c outErr =
     (case dec cb of
        (parsed, bytes', err) \<Rightarrow>
          Returned parsed
            (case err of
               None \<Rightarrow> s\<lparr>bufs := (c, bytes') # h\<rparr>
             | Some e \<Rightarrow> write_err (s\<lparr>bufs := (c, bytes') # h\<rparr>) outErr e))"
  by (simp add: call_decoder_def store_def Let_def split: prod.splits)

lemma nmea_parse_message_NULL: "nmea_parse_message D s None outError = Aborted s"
  by (simp add: nmea_parse_message_def)

lemma nmea_parse_message_dangling:
  "map_of (bufs s) p = None \<Longrightarrow> nmea_parse_message D s (Some p) outError = Undefined"
  by (simp add: nmea_parse_message_def)

lemma nmea_parse_message_too_long:
  "map_of (bufs s) p = Some bytes \<Longrightarrow> INT_MAX < int (strlen bytes) + 2 \<Longrightarrow>
     nmea_parse_message D s (Some p) outError = Undefined"
  by (simp add: nmea_parse_message_def)

text \<open>
  The call on a sentence in a live buffer, after the copy has been made and the
  sentence classified: the copy is at a new address, so the classification reads the
  sentence as it was.
\<close>

lemma nmea_parse_message_unfold:
  assumes "map_of (bufs s) p = Some bytes"
    and "int (strlen bytes) + 2 \<le> INT_MAX"
    and "type_map_scan bytes 0 = Some t"
  shows "nmea_parse_message D s (Some p) outError =
     (let copy = Suc (top_addr (bufs s));
          s2 = s\<lparr>bufs := (copy, strncpy bytes (strlen bytes + 2)) # bufs s\<rparr>
      in
      (case
         (case t of
            kNMEAMessageGGA \<Rightarrow> call_decoder (parse_gga D) s2 copy outError
          | kNMEAMessageGSA \<Rightarrow> call_decoder (parse_gsa D) s2 copy outError
          | kNMEAMessageGSV \<Rightarrow> call_decoder (parse_gsv D) s2 copy outError
          | kNMEAMessageVTG \<Rightarrow> call_decoder (parse_vtg D) s2 copy outError
          | _ \<Rightarrow> Returned None (write_err s2 outError kNMEAErrorTypeNotUnderstood))
       of
         Undefined \<Rightarrow> Undefined
       | Aborted s4 \<Rightarrow> Aborted s4
       | Returned parsed s4 \<Rightarrow>
           (case parsed of
              None \<Rightarrow> Aborted s4
            | Some r \<Rightarrow> Returned (Some (r\<lparr>type := t\<rparr>)) (free s4 copy))))"
proof -
  define n where "n = nat (int (strlen bytes) + 2)"
  let ?copy = "Suc (top_addr (bufs s))"
  let ?s2 = "s\<lparr>bufs := (?copy, strncpy bytes n) # bufs s\<rparr>"
  have n_eq: "strlen bytes + 2 = n"
    by (simp add: n_def)
  have le: "\<not> INT_MAX < int (strlen bytes) + 2"
    using assms(2) by simp
  have neq: "p \<noteq> ?copy"
    using assms(1) by (rule fresh_neq)
  have m: "malloc s n = (?copy, s\<lparr>bufs := (?copy, replicate n NUL) # bufs s\<rparr>)"
    by (simp add: malloc_def)
  have st: "store (s\<lparr>bufs := (?copy, replicate n NUL) # bufs s\<rparr>) ?copy (strncpy bytes n)
      = ?s2"
    by (simp add: store_def)
  have "map_of (bufs ?s2) p = Some bytes"
    using assms(1) neq by simp
  then have g: "nmea_get_message_type ?s2 (Some p) = Returned t ?s2"
    using assms(3) by (rule nmea_get_message_type_reads)
  show ?thesis
    unfolding nmea_parse_message_def Let_def
    by (simp only: option.case assms(1) le if_False n_def [symmetric] n_eq m prod.case st g
        outcome.case)
qed

text \<open>What a call that starts from a sentence in a live buffer can end in.\<close>

lemma nmea_parse_message_ends:
  assumes "map_of (bufs s) p = Some bytes"
    and "int (strlen bytes) + 2 \<le> INT_MAX"
    and "type_map_scan bytes 0 = Some t"
  shows "(\<exists>s4 b. nmea_parse_message D s (Some p) outError = Aborted s4
            \<and> bufs s4 = (Suc (top_addr (bufs s)), b) # bufs s)
       \<or> (\<exists>r s4 b. nmea_parse_message D s (Some p) outError
              = Returned (Some (r\<lparr>type := t\<rparr>)) (free s4 (Suc (top_addr (bufs s))))
            \<and> bufs s4 = (Suc (top_addr (bufs s)), b) # bufs s
            \<and> t \<noteq> kNMEAMessageUnknown)"
  unfolding nmea_parse_message_unfold [OF assms] Let_def
  by (cases t) (auto simp: call_decoder_at_head split: prod.splits option.splits)

lemma nmea_get_message_type_scan:
  "map_of (bufs s) p = Some bytes \<Longrightarrow> nmea_get_message_type s (Some p) = Returned t s'
     \<Longrightarrow> type_map_scan bytes 0 = Some t"
  by (simp add: nmea_get_message_type_def split: option.splits)

subsection \<open>Two concrete calls\<close>

text \<open>
  A GGA sentence with \<open>example_gga\<close>: the call returns the record, stamped, and the memory
  is what it was before the call.
\<close>

lemma example_gga_returns:
  "nmea_parse_message example_decoders (example_memory ''$GPGGA,1,2'') (Some 1) None
     = Returned (Some \<lparr>type = kNMEAMessageGGA\<rparr>) (example_memory ''$GPGGA,1,2'')"
proof -
  let ?bytes = "''$GPGGA,1,2'' @ [NUL]"
  have b: "map_of (bufs (example_memory ''$GPGGA,1,2'')) 1 = Some ?bytes"
    by (simp add: example_memory_def)
  have l: "int (strlen ?bytes) + 2 \<le> INT_MAX"
    by (simp add: INT_MAX_def)
  have t: "type_map_scan ?bytes 0 = Some kNMEAMessageGGA"
    by (simp add: type_map_scan_0)
  show ?thesis
    unfolding nmea_parse_message_unfold [OF b l t]
    by (simp add: Let_def call_decoder_def store_def example_decoders_def example_gga_def
        example_memory_def free_def numeral_2_eq_2)
qed

text \<open>
  A GSA sentence with \<open>example_reject\<close>: the process stops in the assertion; the copy, cut
  at its commas, is still allocated at address 2.
\<close>

lemma example_gsa_aborts:
  "nmea_parse_message example_decoders (example_memory ''$GPGSA,A,3'') (Some 1) None
     = Aborted
         \<lparr>bufs = [(2, ''$GPGSA'' @ [NUL] @ ''A'' @ [NUL] @ ''3'' @ [NUL, NUL]),
                  (1, ''$GPGSA,A,3'' @ [NUL])],
          errs = Map.empty\<rparr>"
proof -
  let ?bytes = "''$GPGSA,A,3'' @ [NUL]"
  have b: "map_of (bufs (example_memory ''$GPGSA,A,3'')) 1 = Some ?bytes"
    by (simp add: example_memory_def)
  have l: "int (strlen ?bytes) + 2 \<le> INT_MAX"
    by (simp add: INT_MAX_def)
  have t: "type_map_scan ?bytes 0 = Some kNMEAMessageGSA"
    by (simp add: type_map_scan_0)
  show ?thesis
    unfolding nmea_parse_message_unfold [OF b l t]
    by (simp add: Let_def call_decoder_def store_def example_decoders_def example_reject_def
        example_memory_def numeral_2_eq_2)
qed

subsection \<open>The record that is returned\<close>

text \<open>
  C4. Tag consistency: for every sentence (the pointer is not \<^verbatim>\<open>NULL\<close>), if
  \<open>nmea_parse_message\<close> returns a record, the \<^verbatim>\<open>type\<close> field of the record is the type
  that \<open>nmea_get_message_type\<close> computes for the same sentence, called on its own before
  the call or after it. The decoder's own value of the field does not matter.
\<close>

theorem tag_consistency:
  assumes "nmea_parse_message D s (Some p) outError = Returned (Some r) s'"
  shows "nmea_get_message_type s (Some p) = Returned (type r) s
       \<and> nmea_get_message_type s' (Some p) = Returned (type r) s'"
proof -
  from assms obtain bytes where b: "map_of (bufs s) p = Some bytes"
    by (cases "map_of (bufs s) p") (simp_all add: nmea_parse_message_dangling)
  with assms have len: "int (strlen bytes) + 2 \<le> INT_MAX"
    by (cases "INT_MAX < int (strlen bytes) + 2") (simp_all add: nmea_parse_message_too_long)
  obtain t where t: "type_map_scan bytes 0 = Some t"
    using type_map_scan_total by blast
  from nmea_parse_message_ends [OF b len t, of D outError] assms
  obtain r0 s4 c where r: "r = r0\<lparr>type := t\<rparr>"
    and s': "s' = free s4 (Suc (top_addr (bufs s)))"
    and s4: "bufs s4 = (Suc (top_addr (bufs s)), c) # bufs s"
    by auto
  from s' s4 have "bufs s' = bufs s"
    by (simp add: free_copy)
  with b have b': "map_of (bufs s') p = Some bytes"
    by simp
  from r have "type r = t"
    by simp
  with t b b' show ?thesis
    by (simp add: nmea_get_message_type_reads)
qed

theorem tag_consistency_witness:
  "nmea_parse_message example_decoders (example_memory ''$GPGGA,1,2'') (Some 1) None
     = Returned (Some \<lparr>type = kNMEAMessageGGA\<rparr>) (example_memory ''$GPGGA,1,2'')
   \<and> nmea_get_message_type (example_memory ''$GPGGA,1,2'') (Some 1)
     = Returned kNMEAMessageGGA (example_memory ''$GPGGA,1,2'')"
  using tag_consistency [OF example_gga_returns] example_gga_returns
  by simp

text \<open>
  C7. For every sentence, if \<open>nmea_parse_message\<close> returns a record, the \<^verbatim>\<open>type\<close> of
  the record is not \<open>kNMEAMessageUnknown\<close>.
\<close>

theorem record_never_Unknown:
  assumes "nmea_parse_message D s message outError = Returned (Some r) s'"
  shows "type r \<noteq> kNMEAMessageUnknown"
proof -
  from assms obtain p where p: "message = Some p"
    by (cases message) (simp_all add: nmea_parse_message_NULL)
  from assms p obtain bytes where b: "map_of (bufs s) p = Some bytes"
    by (cases "map_of (bufs s) p") (simp_all add: nmea_parse_message_dangling)
  with assms p have len: "int (strlen bytes) + 2 \<le> INT_MAX"
    by (cases "INT_MAX < int (strlen bytes) + 2") (simp_all add: nmea_parse_message_too_long)
  obtain t where t: "type_map_scan bytes 0 = Some t"
    using type_map_scan_total by blast
  from nmea_parse_message_ends [OF b len t, of D outError] assms p
  show ?thesis
    by auto
qed

theorem record_never_Unknown_witness:
  "nmea_parse_message example_decoders (example_memory ''$GPGGA,1,2'') (Some 1) None
     = Returned (Some \<lparr>type = kNMEAMessageGGA\<rparr>) (example_memory ''$GPGGA,1,2'')
   \<and> type \<lparr>type = kNMEAMessageGGA\<rparr> \<noteq> kNMEAMessageUnknown"
  using record_never_Unknown [OF example_gga_returns] example_gga_returns
  by simp

subsection \<open>The caller's buffer\<close>

text \<open>
  C8. For every sentence in a live buffer, \<open>nmea_get_message_type\<close> returns with the
  memory as it was, and wherever \<open>nmea_parse_message\<close> ends, by returning or in the
  assertion, the caller's buffer holds the bytes it held before the call: the decoders were
  given the copy, which is at another address. A call on a sentence whose length fits an
  \<^verbatim>\<open>int\<close> does end in one of these two ways.
\<close>

theorem input_buffer_unchanged:
  assumes "map_of (bufs s) p = Some bytes"
  shows "(\<exists>t. nmea_get_message_type s (Some p) = Returned t s)
       \<and> (\<forall>s'. final_memory (nmea_parse_message D s (Some p) outError) = Some s'
             \<longrightarrow> map_of (bufs s') p = Some bytes)
       \<and> (int (strlen bytes) + 2 \<le> INT_MAX
             \<longrightarrow> nmea_parse_message D s (Some p) outError \<noteq> Undefined)"
proof -
  obtain t where t: "type_map_scan bytes 0 = Some t"
    using type_map_scan_total by blast
  have neq: "p \<noteq> Suc (top_addr (bufs s))"
    using assms by (rule fresh_neq)
  have 1: "\<exists>t. nmea_get_message_type s (Some p) = Returned t s"
    using assms t by (auto simp: nmea_get_message_type_reads)
  have 2: "map_of (bufs s') p = Some bytes"
    if f: "final_memory (nmea_parse_message D s (Some p) outError) = Some s'" for s'
  proof -
    from f assms have len: "int (strlen bytes) + 2 \<le> INT_MAX"
      by (cases "INT_MAX < int (strlen bytes) + 2") (simp_all add: nmea_parse_message_too_long)
    from nmea_parse_message_ends [OF assms len t, of D outError]
    show ?thesis
    proof (elim disjE exE conjE)
      fix s4 c
      assume "nmea_parse_message D s (Some p) outError = Aborted s4"
        and "bufs s4 = (Suc (top_addr (bufs s)), c) # bufs s"
      with f assms neq show ?thesis
        by auto
    next
      fix r s4 c
      assume "nmea_parse_message D s (Some p) outError
          = Returned (Some (r\<lparr>type := t\<rparr>)) (free s4 (Suc (top_addr (bufs s))))"
        and "bufs s4 = (Suc (top_addr (bufs s)), c) # bufs s"
      with f assms show ?thesis
        by (auto simp: free_copy)
    qed
  qed
  have 3: "nmea_parse_message D s (Some p) outError \<noteq> Undefined"
    if len: "int (strlen bytes) + 2 \<le> INT_MAX"
    using nmea_parse_message_ends [OF assms len t, of D outError] by auto
  from 1 2 3 show ?thesis
    by blast
qed

theorem input_buffer_unchanged_witness:
  "map_of (bufs (example_memory ''$GPGSA,A,3'')) 1 = Some (''$GPGSA,A,3'' @ [NUL])
   \<and> int (strlen (''$GPGSA,A,3'' @ [NUL])) + 2 \<le> INT_MAX
   \<and> (\<exists>s'. final_memory
              (nmea_parse_message example_decoders (example_memory ''$GPGSA,A,3'') (Some 1) None)
            = Some s'
          \<and> map_of (bufs s') 2 = Some (''$GPGSA'' @ [NUL] @ ''A'' @ [NUL] @ ''3'' @ [NUL, NUL])
          \<and> map_of (bufs s') 1 = Some (''$GPGSA,A,3'' @ [NUL]))
   \<and> nmea_get_message_type (example_memory ''$GPGSA,A,3'') (Some 1)
       = Returned kNMEAMessageGSA (example_memory ''$GPGSA,A,3'')"
proof -
  have b: "map_of (bufs (example_memory ''$GPGSA,A,3'')) 1 = Some (''$GPGSA,A,3'' @ [NUL])"
    by (simp add: example_memory_def)
  have g: "nmea_get_message_type (example_memory ''$GPGSA,A,3'') (Some 1)
       = Returned kNMEAMessageGSA (example_memory ''$GPGSA,A,3'')"
    by (simp add: nmea_get_message_type_def example_memory_def type_map_scan_0)
  have l: "int (strlen (''$GPGSA,A,3'' @ [NUL])) + 2 \<le> INT_MAX"
    by (simp add: INT_MAX_def)
  let ?s1 = "\<lparr>bufs = [(2, ''$GPGSA'' @ [NUL] @ ''A'' @ [NUL] @ ''3'' @ [NUL, NUL]),
                      (1, ''$GPGSA,A,3'' @ [NUL])],
              errs = Map.empty\<rparr>"
  have f: "final_memory
      (nmea_parse_message example_decoders (example_memory ''$GPGSA,A,3'') (Some 1) None)
      = Some ?s1"
    by (simp only: example_gsa_aborts final_memory.simps)
  with input_buffer_unchanged [OF b, of example_decoders None]
  have 1: "map_of (bufs ?s1) 1 = Some (''$GPGSA,A,3'' @ [NUL])"
    by blast
  have 2: "map_of (bufs ?s1) 2 = Some (''$GPGSA'' @ [NUL] @ ''A'' @ [NUL] @ ''3'' @ [NUL, NUL])"
    by simp
  from f 1 2 have "\<exists>s'. final_memory
        (nmea_parse_message example_decoders (example_memory ''$GPGSA,A,3'') (Some 1) None)
        = Some s'
      \<and> map_of (bufs s') 2 = Some (''$GPGSA'' @ [NUL] @ ''A'' @ [NUL] @ ''3'' @ [NUL, NUL])
      \<and> map_of (bufs s') 1 = Some (''$GPGSA,A,3'' @ [NUL])"
    by blast
  with b l g show ?thesis
    by blast
qed

subsection \<open>The assertion on the result\<close>

text \<open>
  C10. Whenever \<open>nmea_parse_message\<close> returns, what it returns is a record and not
  \<^verbatim>\<open>NULL\<close>, so the write to \<^verbatim>\<open>parsed->type\<close> is a write to a record. The outcomes
  without a record do not return: when the sentence is classified as
  \<open>kNMEAMessageUnknown\<close> the process stops in \<^verbatim>\<open>assert(parsed)\<close>, after
  \<^verbatim>\<open>kNMEAErrorTypeNotUnderstood\<close> has been written to the error slot, if there is one;
  and when the decoder that was selected yields \<^verbatim>\<open>NULL\<close> on the copy, the process
  stops there as well.
\<close>

theorem assert_stops_every_no_record_outcome:
  "(nmea_parse_message D s message outError = Returned x s' \<longrightarrow> x \<noteq> None)
   \<and> (map_of (bufs s) p = Some bytes \<and> int (strlen bytes) + 2 \<le> INT_MAX
        \<and> nmea_get_message_type s (Some p) = Returned kNMEAMessageUnknown s
      \<longrightarrow> (\<exists>s1. nmea_parse_message D s (Some p) outError = Aborted s1
             \<and> (\<forall>a. outError = Some a \<longrightarrow> errs s1 a = Some kNMEAErrorTypeNotUnderstood)))
   \<and> (map_of (bufs s) p = Some bytes \<and> int (strlen bytes) + 2 \<le> INT_MAX
        \<and> nmea_get_message_type s (Some p) = Returned t s
        \<and> (t, dec) \<in> {(kNMEAMessageGGA, parse_gga D), (kNMEAMessageGSA, parse_gsa D),
                        (kNMEAMessageGSV, parse_gsv D), (kNMEAMessageVTG, parse_vtg D)}
        \<and> fst (dec (strncpy bytes (strlen bytes + 2))) = None
      \<longrightarrow> (\<exists>s1. nmea_parse_message D s (Some p) outError = Aborted s1))"
proof (intro conjI impI)
  assume ret: "nmea_parse_message D s message outError = Returned x s'"
  then obtain q where q: "message = Some q"
    by (cases message) (simp_all add: nmea_parse_message_NULL)
  from ret q obtain m where m: "map_of (bufs s) q = Some m"
    by (cases "map_of (bufs s) q") (simp_all add: nmea_parse_message_dangling)
  with ret q have len: "int (strlen m) + 2 \<le> INT_MAX"
    by (cases "INT_MAX < int (strlen m) + 2") (simp_all add: nmea_parse_message_too_long)
  obtain u where u: "type_map_scan m 0 = Some u"
    using type_map_scan_total by blast
  from nmea_parse_message_ends [OF m len u, of D outError] ret q
  show "x \<noteq> None"
    by auto
next
  assume a: "map_of (bufs s) p = Some bytes \<and> int (strlen bytes) + 2 \<le> INT_MAX
      \<and> nmea_get_message_type s (Some p) = Returned kNMEAMessageUnknown s"
  then have b: "map_of (bufs s) p = Some bytes"
    and len: "int (strlen bytes) + 2 \<le> INT_MAX"
    and g: "nmea_get_message_type s (Some p) = Returned kNMEAMessageUnknown s"
    by simp_all
  from b g have u: "type_map_scan bytes 0 = Some kNMEAMessageUnknown"
    by (rule nmea_get_message_type_scan)
  show "\<exists>s1. nmea_parse_message D s (Some p) outError = Aborted s1
      \<and> (\<forall>a. outError = Some a \<longrightarrow> errs s1 a = Some kNMEAErrorTypeNotUnderstood)"
    unfolding nmea_parse_message_unfold [OF b len u] Let_def
    by auto
next
  assume a: "map_of (bufs s) p = Some bytes \<and> int (strlen bytes) + 2 \<le> INT_MAX
      \<and> nmea_get_message_type s (Some p) = Returned t s
      \<and> (t, dec) \<in> {(kNMEAMessageGGA, parse_gga D), (kNMEAMessageGSA, parse_gsa D),
                      (kNMEAMessageGSV, parse_gsv D), (kNMEAMessageVTG, parse_vtg D)}
      \<and> fst (dec (strncpy bytes (strlen bytes + 2))) = None"
  then have b: "map_of (bufs s) p = Some bytes"
    and len: "int (strlen bytes) + 2 \<le> INT_MAX"
    and g: "nmea_get_message_type s (Some p) = Returned t s"
    and d: "(t, dec) \<in> {(kNMEAMessageGGA, parse_gga D), (kNMEAMessageGSA, parse_gsa D),
                      (kNMEAMessageGSV, parse_gsv D), (kNMEAMessageVTG, parse_vtg D)}"
    and f: "fst (dec (strncpy bytes (strlen bytes + 2))) = None"
    by simp_all
  from b g have u: "type_map_scan bytes 0 = Some t"
    by (rule nmea_get_message_type_scan)
  from d f show "\<exists>s1. nmea_parse_message D s (Some p) outError = Aborted s1"
    unfolding nmea_parse_message_unfold [OF b len u] Let_def
    by (auto simp: call_decoder_at_head split: prod.splits)
qed

theorem assert_stops_every_no_record_outcome_witness:
  "nmea_parse_message example_decoders (example_memory ''$GPGGA,1,2'') (Some 1) None
     = Returned (Some \<lparr>type = kNMEAMessageGGA\<rparr>) (example_memory ''$GPGGA,1,2'')
   \<and> Some \<lparr>type = kNMEAMessageGGA\<rparr> \<noteq> None
   \<and> nmea_get_message_type
         ((example_memory ''$GPRMC,1'')\<lparr>errs := [7 \<mapsto> kNMEAErrorDecoder 0]\<rparr>) (Some 1)
       = Returned kNMEAMessageUnknown
           ((example_memory ''$GPRMC,1'')\<lparr>errs := [7 \<mapsto> kNMEAErrorDecoder 0]\<rparr>)
   \<and> (\<exists>s1. nmea_parse_message example_decoders
              ((example_memory ''$GPRMC,1'')\<lparr>errs := [7 \<mapsto> kNMEAErrorDecoder 0]\<rparr>)
              (Some 1) (Some 7) = Aborted s1
          \<and> errs s1 7 = Some kNMEAErrorTypeNotUnderstood)
   \<and> fst (parse_gsa example_decoders
            (strncpy (''$GPGSA,A,3'' @ [NUL]) (strlen (''$GPGSA,A,3'' @ [NUL]) + 2))) = None
   \<and> (\<exists>s1. nmea_parse_message example_decoders (example_memory ''$GPGSA,A,3'')
              (Some 1) None = Aborted s1)"
proof -
  have 1: "Some \<lparr>type = kNMEAMessageGGA\<rparr> \<noteq> None"
    using assert_stops_every_no_record_outcome
      [where D = example_decoders and s = "example_memory ''$GPGGA,1,2''"
         and message = "Some 1" and outError = None
         and x = "Some \<lparr>type = kNMEAMessageGGA\<rparr>" and s' = "example_memory ''$GPGGA,1,2''"]
      example_gga_returns
    by blast
  have g: "nmea_get_message_type
         ((example_memory ''$GPRMC,1'')\<lparr>errs := [7 \<mapsto> kNMEAErrorDecoder 0]\<rparr>) (Some 1)
       = Returned kNMEAMessageUnknown
           ((example_memory ''$GPRMC,1'')\<lparr>errs := [7 \<mapsto> kNMEAErrorDecoder 0]\<rparr>)"
    by (simp add: example_memory_def nmea_get_message_type_def type_map_scan_0)
  have 2: "\<exists>s1. nmea_parse_message example_decoders
              ((example_memory ''$GPRMC,1'')\<lparr>errs := [7 \<mapsto> kNMEAErrorDecoder 0]\<rparr>)
              (Some 1) (Some 7) = Aborted s1
          \<and> errs s1 7 = Some kNMEAErrorTypeNotUnderstood"
    using assert_stops_every_no_record_outcome
      [where D = example_decoders
         and s = "(example_memory ''$GPRMC,1'')\<lparr>errs := [7 \<mapsto> kNMEAErrorDecoder 0]\<rparr>"
         and p = 1 and outError = "Some 7" and bytes = "''$GPRMC,1'' @ [NUL]"]
    by (simp add: example_memory_def INT_MAX_def nmea_get_message_type_def type_map_scan_0)
  have d: "fst (parse_gsa example_decoders
            (strncpy (''$GPGSA,A,3'' @ [NUL]) (strlen (''$GPGSA,A,3'' @ [NUL]) + 2))) = None"
    by (simp add: example_decoders_def example_reject_def)
  have 3: "\<exists>s1. nmea_parse_message example_decoders (example_memory ''$GPGSA,A,3'')
              (Some 1) None = Aborted s1"
    using assert_stops_every_no_record_outcome
      [where D = example_decoders and s = "example_memory ''$GPGSA,A,3''"
         and p = 1 and outError = None and bytes = "''$GPGSA,A,3'' @ [NUL]"
         and t = kNMEAMessageGSA and dec = example_reject]
    by (simp add: example_memory_def INT_MAX_def nmea_get_message_type_def type_map_scan_0
        example_decoders_def example_reject_def)
  from example_gga_returns 1 g 2 d 3 show ?thesis
    by blast
qed

subsection \<open>Sentences that cannot be parsed\<close>

text \<open>
  The comment on \<^verbatim>\<open>nmea_parse_message\<close> says that \<^verbatim>\<open>NULL\<close> is returned when the
  message could not be parsed, and that the error code is then stored through
  \<^verbatim>\<open>outError\<close>. The three calls below are evaluated on the source as it is.
\<close>

text \<open>
  C1. A sentence whose first six characters are no registered prefix should make
  \<open>nmea_parse_message\<close> return \<^verbatim>\<open>NULL\<close>, with \<^verbatim>\<open>kNMEAErrorTypeNotUnderstood\<close> in
  the error slot and no decoder called. On the sentence \<^verbatim>\<open>$GPXYZ,1\<close> the code is written
  to the slot and no decoder runs (the copy at address 2 is the sentence as it was), but the
  call does not return: the process stops in \<^verbatim>\<open>assert(parsed)\<close>.
\<close>

theorem unknown_type_aborts:
  "nmea_parse_message example_decoders
       ((example_memory ''$GPXYZ,1'')\<lparr>errs := [7 \<mapsto> kNMEAErrorDecoder 0]\<rparr>) (Some 1) (Some 7)
     = Aborted
         \<lparr>bufs = [(2, ''$GPXYZ,1'' @ [NUL, NUL]), (1, ''$GPXYZ,1'' @ [NUL])],
          errs = [7 \<mapsto> kNMEAErrorTypeNotUnderstood]\<rparr>"
proof -
  let ?s = "(example_memory ''$GPXYZ,1'')\<lparr>errs := [7 \<mapsto> kNMEAErrorDecoder 0]\<rparr>"
  let ?bytes = "''$GPXYZ,1'' @ [NUL]"
  have b: "map_of (bufs ?s) 1 = Some ?bytes"
    by (simp add: example_memory_def)
  have l: "int (strlen ?bytes) + 2 \<le> INT_MAX"
    by (simp add: INT_MAX_def)
  have t: "type_map_scan ?bytes 0 = Some kNMEAMessageUnknown"
    by (simp add: type_map_scan_0)
  show ?thesis
    unfolding nmea_parse_message_unfold [OF b l t]
    by (simp add: Let_def example_memory_def numeral_2_eq_2)
qed

text \<open>
  C2. A recognised sentence that its decoder refuses (the decoder yields \<^verbatim>\<open>NULL\<close> and
  stores its own code) should make \<open>nmea_parse_message\<close> return \<^verbatim>\<open>NULL\<close> with the
  decoder's code in the error slot, and the call should never end abnormally. On the
  sentence \<^verbatim>\<open>$GPGSV,3,1\<close> with a decoder that refuses it, the decoder's code is in the
  slot, but the call does not return: the process stops in \<^verbatim>\<open>assert(parsed)\<close>.
\<close>

theorem decoder_failure_aborts:
  "nmea_parse_message example_decoders
       ((example_memory ''$GPGSV,3,1'')\<lparr>errs := [7 \<mapsto> kNMEAErrorDecoder 0]\<rparr>) (Some 1) (Some 7)
     = Aborted
         \<lparr>bufs = [(2, ''$GPGSV'' @ [NUL] @ ''3'' @ [NUL] @ ''1'' @ [NUL, NUL]),
                  (1, ''$GPGSV,3,1'' @ [NUL])],
          errs = [7 \<mapsto> kNMEAErrorDecoder 1]\<rparr>"
proof -
  let ?s = "(example_memory ''$GPGSV,3,1'')\<lparr>errs := [7 \<mapsto> kNMEAErrorDecoder 0]\<rparr>"
  let ?bytes = "''$GPGSV,3,1'' @ [NUL]"
  have b: "map_of (bufs ?s) 1 = Some ?bytes"
    by (simp add: example_memory_def)
  have l: "int (strlen ?bytes) + 2 \<le> INT_MAX"
    by (simp add: INT_MAX_def)
  have t: "type_map_scan ?bytes 0 = Some kNMEAMessageGSV"
    by (simp add: type_map_scan_0)
  show ?thesis
    unfolding nmea_parse_message_unfold [OF b l t]
    by (simp add: Let_def call_decoder_def store_def example_decoders_def example_reject_def
        example_memory_def numeral_2_eq_2)
qed

text \<open>
  C9. The copy of the sentence should be released before \<open>nmea_parse_message\<close> returns on
  every path: success, decoder failure, unknown type. \<^verbatim>\<open>free(copy)\<close> comes after
  \<^verbatim>\<open>assert(parsed)\<close>: on a sentence of unknown type (\<^verbatim>\<open>$GPVTG,054.7\<close>) and on a
  sentence its decoder refuses (\<^verbatim>\<open>$GPVTF,054.7\<close>) the process stops with the copy, at
  address 2, still allocated.
\<close>

theorem copy_not_released_without_record:
  "(\<exists>s'. nmea_parse_message example_decoders (example_memory ''$GPVTG,054.7'') (Some 1) None
            = Aborted s'
        \<and> map_of (bufs s') 2 = Some (''$GPVTG,054.7'' @ [NUL, NUL]))
   \<and> (\<exists>s'. nmea_parse_message example_decoders (example_memory ''$GPVTF,054.7'') (Some 1) None
            = Aborted s'
        \<and> map_of (bufs s') 2 = Some (''$GPVTF'' @ [NUL] @ ''054.7'' @ [NUL, NUL]))"
proof -
  let ?u = "''$GPVTG,054.7'' @ [NUL]"
  let ?v = "''$GPVTF,054.7'' @ [NUL]"
  have bu: "map_of (bufs (example_memory ''$GPVTG,054.7'')) 1 = Some ?u"
    by (simp add: example_memory_def)
  have lu: "int (strlen ?u) + 2 \<le> INT_MAX"
    by (simp add: INT_MAX_def)
  have tu: "type_map_scan ?u 0 = Some kNMEAMessageUnknown"
    by (simp add: type_map_scan_0)
  have bv: "map_of (bufs (example_memory ''$GPVTF,054.7'')) 1 = Some ?v"
    by (simp add: example_memory_def)
  have lv: "int (strlen ?v) + 2 \<le> INT_MAX"
    by (simp add: INT_MAX_def)
  have tv: "type_map_scan ?v 0 = Some kNMEAMessageVTG"
    by (simp add: type_map_scan_0)
  have 1: "\<exists>s'. nmea_parse_message example_decoders (example_memory ''$GPVTG,054.7'') (Some 1) None
            = Aborted s'
        \<and> map_of (bufs s') 2 = Some (''$GPVTG,054.7'' @ [NUL, NUL])"
    unfolding nmea_parse_message_unfold [OF bu lu tu]
    by (simp add: Let_def example_memory_def numeral_2_eq_2)
  have 2: "\<exists>s'. nmea_parse_message example_decoders (example_memory ''$GPVTF,054.7'') (Some 1) None
            = Aborted s'
        \<and> map_of (bufs s') 2 = Some (''$GPVTF'' @ [NUL] @ ''054.7'' @ [NUL, NUL])"
    unfolding nmea_parse_message_unfold [OF bv lv tv]
    by (simp add: Let_def call_decoder_def store_def example_decoders_def example_reject_def
        example_memory_def numeral_2_eq_2)
  from 1 2 show ?thesis
    by blast
qed

end
